theory Spec2Isabelle
  imports Main "HOL-Library.Sublist"
begin

section \<open>JSON values shared by both services\<close>

text \<open>
  Both services exchange JSON. A value is null, a boolean, a number, a string, an array or
  an object. Numbers are the integers (the only numeric operations of the code are a test
  against zero and printing); fractions are not represented. Python keeps and prints every
  integer exactly. JavaScript holds a number as a double: it keeps and prints an integer
  exactly up to \<open>2^53\<close> in magnitude, so on the JavaScript side a number of the model
  stands for a payload number in that range. Strings are lists of 8-bit code units read as
  Latin-1. An object is the association list of its own properties; \<open>map_of\<close> reads a
  property.
\<close>

datatype json =
    JNull
  | JBool bool
  | JNum int
  | JStr string
  | JArr "json list"
  | JObj "(string \<times> json) list"

text \<open>Decimal printing of a length or of an integer, as a template literal does.\<close>

definition digit_char :: "nat \<Rightarrow> char" where
  "digit_char n = char_of (48 + n)"

fun show_nat :: "nat \<Rightarrow> string" where
  "show_nat n = (if n < 10 then [digit_char n] else show_nat (n div 10) @ [digit_char (n mod 10)])"

declare show_nat.simps [simp del]

definition show_int :: "int \<Rightarrow> string" where
  "show_int i = (if i < 0 then CHR ''-'' # show_nat (nat (- i)) else show_nat (nat i))"

section \<open>The receiving boundary: the hospital server (JavaScript)\<close>

subsection \<open>JavaScript values and the operations the server uses\<close>

text \<open>
  A JavaScript value is a JSON value or \<open>undefined\<close> (\<open>None\<close>). Reading a property of
  \<open>undefined\<close> or \<open>null\<close> throws a TypeError; every other read returns a value or
  \<open>undefined\<close>.
\<close>

type_synonym js = "json option"

datatype js_error = JsTypeError

definition bindE :: "'e + 'a \<Rightarrow> ('a \<Rightarrow> 'e + 'b) \<Rightarrow> 'e + 'b" where
  "bindE r f = (case r of Inl e \<Rightarrow> Inl e | Inr v \<Rightarrow> f v)"

fun truthy :: "js \<Rightarrow> bool" where
  "truthy None = False"
| "truthy (Some JNull) = False"
| "truthy (Some (JBool b)) = b"
| "truthy (Some (JNum n)) = (n \<noteq> 0)"
| "truthy (Some (JStr s)) = (s \<noteq> [])"
| "truthy (Some (JArr xs)) = True"
| "truthy (Some (JObj kvs)) = True"

text \<open>
  \<open>get_prop v k\<close> is \<open>v.k\<close> for the property names the server reads (identifier, name,
  length, value, family, given, birthDate, gender): none of them is inherited from a
  prototype except \<open>length\<close> of arrays and strings.
\<close>

fun get_prop :: "js \<Rightarrow> string \<Rightarrow> js_error + js" where
  "get_prop None k = Inl JsTypeError"
| "get_prop (Some JNull) k = Inl JsTypeError"
| "get_prop (Some (JObj kvs)) k = Inr (map_of kvs k)"
| "get_prop (Some (JArr xs)) k =
     Inr (if k = ''length'' then Some (JNum (int (length xs))) else None)"
| "get_prop (Some (JStr s)) k =
     Inr (if k = ''length'' then Some (JNum (int (length s))) else None)"
| "get_prop (Some (JBool b)) k = Inr None"
| "get_prop (Some (JNum n)) k = Inr None"

text \<open>\<open>get_index0 v\<close> is \<open>v[0]\<close>.\<close>

fun get_index0 :: "js \<Rightarrow> js_error + js" where
  "get_index0 None = Inl JsTypeError"
| "get_index0 (Some JNull) = Inl JsTypeError"
| "get_index0 (Some (JArr xs)) = Inr (case xs of [] \<Rightarrow> None | x # _ \<Rightarrow> Some x)"
| "get_index0 (Some (JStr s)) = Inr (case s of [] \<Rightarrow> None | c # _ \<Rightarrow> Some (JStr [c]))"
| "get_index0 (Some (JObj kvs)) = Inr (map_of kvs ''0'')"
| "get_index0 (Some (JBool b)) = Inr None"
| "get_index0 (Some (JNum n)) = Inr None"

text \<open>\<open>js_or v d\<close> is \<open>v || d\<close> for a literal \<open>d\<close>.\<close>

definition js_or :: "js \<Rightarrow> json \<Rightarrow> json" where
  "js_or v d = (case v of None \<Rightarrow> d | Some x \<Rightarrow> if truthy v then x else d)"

text \<open>
  String conversion inside a template literal. An array joins its elements with commas
  (null prints as the empty string); a parsed object prints as \<open>[object Object]\<close> unless
  it has an own property \<open>toString\<close>, which is then not callable, and the conversion
  throws a TypeError.
\<close>

fun to_str :: "json \<Rightarrow> js_error + string"
  and join_strs :: "json list \<Rightarrow> js_error + string" where
  "to_str JNull = Inr ''null''"
| "to_str (JBool b) = Inr (if b then ''true'' else ''false'')"
| "to_str (JNum n) = Inr (show_int n)"
| "to_str (JStr s) = Inr s"
| "to_str (JArr xs) = join_strs xs"
| "to_str (JObj kvs) =
     (if map_of kvs ''toString'' = None then Inr ''[object Object]'' else Inl JsTypeError)"
| "join_strs [] = Inr []"
| "join_strs (x # xs) =
     bindE (if x = JNull then Inr [] else to_str x) (\<lambda>s.
       if xs = [] then Inr s
       else bindE (join_strs xs) (\<lambda>r. Inr (s @ '','' @ r)))"

text \<open>
  \<open>gt_zero str_gt0 v\<close> is \<open>v > 0\<close>. \<open>undefined\<close> converts to NaN and \<open>null\<close> to 0; a
  string is read as a numeric literal, which the parameter \<open>str_gt0\<close> stands for; arrays
  and objects are first converted to a string.
\<close>

fun gt_zero :: "(string \<Rightarrow> bool) \<Rightarrow> js \<Rightarrow> js_error + bool" where
  "gt_zero str_gt0 None = Inr False"
| "gt_zero str_gt0 (Some JNull) = Inr False"
| "gt_zero str_gt0 (Some (JBool b)) = Inr b"
| "gt_zero str_gt0 (Some (JNum n)) = Inr (0 < n)"
| "gt_zero str_gt0 (Some (JStr s)) = Inr (str_gt0 s)"
| "gt_zero str_gt0 (Some (JArr xs)) = bindE (to_str (JArr xs)) (\<lambda>s. Inr (str_gt0 s))"
| "gt_zero str_gt0 (Some (JObj kvs)) = bindE (to_str (JObj kvs)) (\<lambda>s. Inr (str_gt0 s))"

text \<open>\<open>toLowerCase\<close> on Latin-1 code units, and \<open>s.includes(t)\<close>.\<close>

definition to_lower_char :: "char \<Rightarrow> char" where
  "to_lower_char c =
     (let n = (of_char c :: nat)
      in if (65 \<le> n \<and> n \<le> 90) \<or> (192 \<le> n \<and> n \<le> 222 \<and> n \<noteq> 215)
         then char_of (n + 32) else c)"

definition toLowerCase :: "string \<Rightarrow> string" where
  "toLowerCase s = map to_lower_char s"

fun includes_str :: "string \<Rightarrow> string \<Rightarrow> bool" where
  "includes_str [] t = (t = [])"
| "includes_str (c # s) t = (prefix t (c # s) \<or> includes_str s t)"

subsection \<open>Records and the two store files\<close>

record patient_details =
  patient_id :: json
  given_name :: json
  family_name :: json
  full_name :: string
  birth_date :: json
  gender :: json
  original_fhir :: js

record patient_record =
  details :: patient_details
  received_timestamp :: string
  status :: string

text \<open>
  The server creates each store file as the empty array and only ever writes arrays of
  records to it, so a store file holds an array of records, or nothing that can be read and
  parsed (\<open>None\<close>: the file is missing or corrupt). A file changed from outside to hold
  other JSON is not represented. \<open>write_ok\<close> says whether \<open>fs.writeFile\<close> on the file
  succeeds; a write that succeeds replaces the content, so the next read succeeds, and a
  write that fails leaves the content as it was.
  \<^verbatim>\<open>
  async function loadJsonFile(filePath) {
    try { const data = await fs.readFile(filePath, 'utf8'); return JSON.parse(data); }
    catch (error) { return []; }
  }
  async function saveJsonFile(filePath, data) {
    try { await fs.writeFile(filePath, JSON.stringify(data, null, 2)); return true; }
    catch (error) { return false; }
  }
  \<close>
\<close>

record store_file =
  content :: "patient_record list option"
  write_ok :: bool

record store =
  pending_queue :: store_file
  received_patients :: store_file

definition loadJsonFile :: "store_file \<Rightarrow> patient_record list" where
  "loadJsonFile f = (case content f of Some xs \<Rightarrow> xs | None \<Rightarrow> [])"

definition saveJsonFile :: "store_file \<Rightarrow> patient_record list \<Rightarrow> store_file \<times> bool" where
  "saveJsonFile f data =
     (if write_ok f then (f\<lparr>content := Some data\<rparr>, True) else (f, False))"

subsection \<open>extractPatientDetails\<close>

text \<open>
  \<^verbatim>\<open>
  try {
    let patientId = "Unknown";
    if (fhirData.identifier && fhirData.identifier.length > 0) {
      patientId = fhirData.identifier[0].value || "Unknown";
    }
    const nameData = fhirData.name && fhirData.name.length > 0 ? fhirData.name[0] : {};
    const familyName = nameData.family || "Unknown";
    const givenNames = nameData.given || ["Unknown"];
    const givenName = givenNames[0] || "Unknown";
    const birthDate = fhirData.birthDate || "Unknown";
    const gender = fhirData.gender || "Unknown";
    return { patient_id: patientId, given_name: givenName, family_name: familyName,
             full_name: `${givenName} ${familyName}`, birth_date: birthDate,
             gender: gender, original_fhir: fhirData };
  } catch (error) {
    return { patient_id: "Error", given_name: "Error", family_name: "Error",
             full_name: "Error processing patient data", birth_date: "Unknown",
             gender: "Unknown", original_fhir: fhirData };
  }
  \<close>
  \<open>extract_body\<close> is the try block and \<open>error_details\<close> the record of the catch branch.
\<close>

definition extract_body :: "(string \<Rightarrow> bool) \<Rightarrow> js \<Rightarrow> js_error + patient_details" where
  "extract_body str_gt0 fhirData =
     bindE (get_prop fhirData ''identifier'') (\<lambda>identifier.
     bindE (if truthy identifier
            then bindE (get_prop identifier ''length'') (gt_zero str_gt0)
            else Inr False) (\<lambda>has_identifier.
     bindE (if has_identifier
            then bindE (get_index0 identifier) (\<lambda>first.
                 bindE (get_prop first ''value'') (\<lambda>v. Inr (js_or v (JStr ''Unknown''))))
            else Inr (JStr ''Unknown'')) (\<lambda>patientId.
     bindE (get_prop fhirData ''name'') (\<lambda>name.
     bindE (if truthy name
            then bindE (get_prop name ''length'') (gt_zero str_gt0)
            else Inr False) (\<lambda>has_name.
     bindE (if has_name then get_index0 name else Inr (Some (JObj []))) (\<lambda>nameData.
     bindE (get_prop nameData ''family'') (\<lambda>family.
     bindE (get_prop nameData ''given'') (\<lambda>given.
     let familyName = js_or family (JStr ''Unknown'');
         givenNames = js_or given (JArr [JStr ''Unknown''])
     in
     bindE (get_index0 (Some givenNames)) (\<lambda>given0.
     let givenName = js_or given0 (JStr ''Unknown'') in
     bindE (get_prop fhirData ''birthDate'') (\<lambda>birth.
     bindE (get_prop fhirData ''gender'') (\<lambda>gen.
     bindE (to_str givenName) (\<lambda>given_s.
     bindE (to_str familyName) (\<lambda>family_s.
     Inr \<lparr> patient_id = patientId,
           given_name = givenName,
           family_name = familyName,
           full_name = given_s @ '' '' @ family_s,
           birth_date = js_or birth (JStr ''Unknown''),
           gender = js_or gen (JStr ''Unknown''),
           original_fhir = fhirData \<rparr>)))))))))))))"

definition error_details :: "js \<Rightarrow> patient_details" where
  "error_details fhirData =
     \<lparr> patient_id = JStr ''Error'',
       given_name = JStr ''Error'',
       family_name = JStr ''Error'',
       full_name = ''Error processing patient data'',
       birth_date = JStr ''Unknown'',
       gender = JStr ''Unknown'',
       original_fhir = fhirData \<rparr>"

definition extractPatientDetails :: "(string \<Rightarrow> bool) \<Rightarrow> js \<Rightarrow> patient_details" where
  "extractPatientDetails str_gt0 fhirData =
     (case extract_body str_gt0 fhirData of
        Inr d \<Rightarrow> d
      | Inl e \<Rightarrow> error_details fhirData)"

subsection \<open>The routes\<close>

datatype body =
    Records "patient_record list"
  | ErrorBody string
  | ProcessBody bool string
  | StatusBody string string
  | ParserError

datatype response = Reply (code: nat) (body: body)

text \<open>GET /api/patients and GET /api/pending: what a reader of each store sees.\<close>

definition committed :: "store \<Rightarrow> patient_record list" where
  "committed s = loadJsonFile (received_patients s)"

definition pending :: "store \<Rightarrow> patient_record list" where
  "pending s = loadJsonFile (pending_queue s)"

text \<open>
  A handler runs until its next \<open>await\<close>; other requests may run before it resumes, and
  the server takes no lock. A request in progress is a \<open>task\<close>: where the handler stands
  and what it holds in its local variables. \<open>step\<close> performs the file operation the task
  waits for and runs the handler up to its next \<open>await\<close> or to its reply.

  POST /api/process-pending:
  \<^verbatim>\<open>
  const pendingPatients = await loadJsonFile(PENDING_QUEUE_FILE);
  const receivedPatients = await loadJsonFile(RECEIVED_PATIENTS_FILE);
  receivedPatients.push(...pendingPatients);
  await saveJsonFile(RECEIVED_PATIENTS_FILE, receivedPatients);
  await saveJsonFile(PENDING_QUEUE_FILE, []);
  res.json({ success: true, message: `${pendingPatients.length} records have been processed` });
  \<close>
  The results of both saves are dropped, as in the source. The helpers swallow every I/O
  error, so the catch branch of this handler (status 500) is unreachable.

  POST /fhir/patient, after the record has been built:
  \<^verbatim>\<open>
  const pendingQueue = await loadJsonFile(PENDING_QUEUE_FILE);
  pendingQueue.push(pendingRecord);
  await saveJsonFile(PENDING_QUEUE_FILE, pendingQueue);
  console.log(`New patient record received: ${patientDetails.full_name} (ID: ${patientDetails.patient_id})`);
  res.status(200).json({ status: 'success',
    message: `Patient data for ${patientDetails.full_name} received and pending review.` });
  } catch (error) {
    res.status(500).json({ error: 'Failed to process patient data' });
  }
  \<close>
  The result of the save is dropped here too. The log line converts \<open>patient_id\<close> to a
  string, which throws for a value that cannot be printed; the catch branch then answers
  500, after the save.
\<close>

datatype task =
    CommitStart
  | CommitLoaded "patient_record list"
  | CommitMerged "patient_record list" "patient_record list"
  | CommitSaved "patient_record list"
  | ReceiptStart patient_record
  | ReceiptLoaded patient_record "patient_record list"
  | Finished response

definition log_line :: "patient_details \<Rightarrow> js_error + string" where
  "log_line d =
     bindE (to_str (patient_id d)) (\<lambda>id_text.
       Inr (''New patient record received: '' @ full_name d @ '' (ID: '' @ id_text @ '')''))"

definition receipt_reply :: "patient_details \<Rightarrow> response" where
  "receipt_reply d =
     (case log_line d of
        Inr line \<Rightarrow>
          Reply 200 (StatusBody ''success''
            (''Patient data for '' @ full_name d @ '' received and pending review.''))
      | Inl e \<Rightarrow> Reply 500 (ErrorBody ''Failed to process patient data''))"

fun step :: "task \<Rightarrow> store \<Rightarrow> task \<times> store" where
  "step CommitStart s = (CommitLoaded (loadJsonFile (pending_queue s)), s)"
| "step (CommitLoaded pendingPatients) s =
     (CommitMerged pendingPatients (loadJsonFile (received_patients s) @ pendingPatients), s)"
| "step (CommitMerged pendingPatients receivedPatients) s =
     (CommitSaved pendingPatients,
      s\<lparr>received_patients := fst (saveJsonFile (received_patients s) receivedPatients)\<rparr>)"
| "step (CommitSaved pendingPatients) s =
     (Finished (Reply 200 (ProcessBody True
        (show_nat (length pendingPatients) @ '' records have been processed''))),
      s\<lparr>pending_queue := fst (saveJsonFile (pending_queue s) [])\<rparr>)"
| "step (ReceiptStart pendingRecord) s =
     (ReceiptLoaded pendingRecord (loadJsonFile (pending_queue s) @ [pendingRecord]), s)"
| "step (ReceiptLoaded pendingRecord pendingQueue) s =
     (Finished (receipt_reply (details pendingRecord)),
      s\<lparr>pending_queue := fst (saveJsonFile (pending_queue s) pendingQueue)\<rparr>)"
| "step (Finished r) s = (Finished r, s)"

text \<open>The number of file operations a task still has to perform.\<close>

fun steps_left :: "task \<Rightarrow> nat" where
  "steps_left CommitStart = 4"
| "steps_left (CommitLoaded p) = 3"
| "steps_left (CommitMerged p r) = 2"
| "steps_left (CommitSaved p) = 1"
| "steps_left (ReceiptStart r) = 2"
| "steps_left (ReceiptLoaded r q) = 1"
| "steps_left (Finished r) = 0"

text \<open>
  \<open>run_alone t s\<close> runs one request to its reply with no other request in between.
\<close>

function run_alone :: "task \<Rightarrow> store \<Rightarrow> store \<times> response" where
  "run_alone t s =
     (case t of
        Finished r \<Rightarrow> (s, r)
      | _ \<Rightarrow> run_alone (fst (step t s)) (snd (step t s)))"
  by pat_completeness auto
termination
  by (relation "measure (\<lambda>(t, s). steps_left t)") (auto split: task.splits)

declare run_alone.simps [simp del]

text \<open>
  \<open>run_schedule order tasks s\<close> interleaves several requests: each number of \<open>order\<close>
  names the request that performs its next step.
\<close>

fun run_schedule :: "nat list \<Rightarrow> task list \<Rightarrow> store \<Rightarrow> task list \<times> store" where
  "run_schedule [] tasks s = (tasks, s)"
| "run_schedule (i # order) tasks s =
     (if i < length tasks
      then run_schedule order (tasks[i := fst (step (tasks ! i) s)]) (snd (step (tasks ! i) s))
      else run_schedule order tasks s)"

definition process_pending :: "store \<Rightarrow> store \<times> response" where
  "process_pending s = run_alone CommitStart s"

text \<open>
  GET /api/search. \<open>query\<close> is the query parameter (\<open>None\<close> when absent). The handler has
  one \<open>await\<close>, the read of the committed file.
  \<^verbatim>\<open>
  try {
    const { query } = req.query;
    if (!query) { return res.json([]); }
    const patients = await loadJsonFile(RECEIVED_PATIENTS_FILE);
    const searchTerm = query.toLowerCase();
    const results = patients.filter(patient =>
      patient.details.patient_id.toLowerCase().includes(searchTerm) ||
      patient.details.full_name.toLowerCase().includes(searchTerm));
    res.json(results);
  } catch (error) { res.status(500).json({ error: 'Search failed' }); }
  \<close>
  Calling \<open>toLowerCase\<close> on a \<open>patient_id\<close> that is not a string throws, and the route
  answers 500.
\<close>

definition search_match :: "string \<Rightarrow> patient_record \<Rightarrow> js_error + bool" where
  "search_match searchTerm patient =
     (case patient_id (details patient) of
        JStr pid \<Rightarrow>
          Inr (includes_str (toLowerCase pid) searchTerm
               \<or> includes_str (toLowerCase (full_name (details patient))) searchTerm)
      | _ \<Rightarrow> Inl JsTypeError)"

fun filterE :: "('a \<Rightarrow> js_error + bool) \<Rightarrow> 'a list \<Rightarrow> js_error + 'a list" where
  "filterE p [] = Inr []"
| "filterE p (x # xs) =
     bindE (p x) (\<lambda>keep. bindE (filterE p xs) (\<lambda>rest. Inr (if keep then x # rest else rest)))"

definition get_search :: "string option \<Rightarrow> store \<Rightarrow> response" where
  "get_search query s =
     (case query of
        None \<Rightarrow> Reply 200 (Records [])
      | Some q \<Rightarrow>
          if q = [] then Reply 200 (Records [])
          else (let patients = loadJsonFile (received_patients s);
                    searchTerm = toLowerCase q
                in case filterE (search_match searchTerm) patients of
                     Inr results \<Rightarrow> Reply 200 (Records results)
                   | Inl e \<Rightarrow> Reply 500 (ErrorBody ''Search failed'')))"

text \<open>
  The handler of POST /fhir/patient on the parsed body \<open>fhirData\<close>, run with no other
  request in between. \<open>now\<close> is the value of \<open>new Date().toISOString()\<close>.
  \<^verbatim>\<open>
  const fhirData = req.body;
  const patientDetails = extractPatientDetails(fhirData);
  const pendingRecord = { details: patientDetails,
                          received_timestamp: new Date().toISOString(), status: 'pending' };
  \<close>
\<close>

definition post_fhir_patient ::
  "(string \<Rightarrow> bool) \<Rightarrow> js \<Rightarrow> string \<Rightarrow> store \<Rightarrow> store \<times> response" where
  "post_fhir_patient str_gt0 fhirData now s =
     (let patientDetails = extractPatientDetails str_gt0 fhirData;
          pendingRecord = \<lparr> details = patientDetails,
                            received_timestamp = now,
                            status = ''pending'' \<rparr>
      in run_alone (ReceiptStart pendingRecord) s)"


section \<open>The interoperability service (Python)\<close>

subsection \<open>Exceptions and the operations on JSON data\<close>

text \<open>
  The exceptions the service can meet. \<open>KeyError\<close> carries the printed key and
  \<open>IndexError\<close> and \<open>ValueError\<close> their message, which is what \<open>str(e)\<close> gives.
  \<open>ResourceError\<close> is what the resource library raises for data it does not accept,
  \<open>ServiceError\<close> any failure of the call to the decision service. All of them derive
  from \<open>Exception\<close> except \<open>CancelledError\<close>, which derives from \<open>BaseException\<close> only.
\<close>

datatype py_exn =
    KeyError string
  | IndexError string
  | TypeError
  | AttributeError
  | AssertionError
  | ValueError string
  | ResourceError
  | ServiceError
  | CancelledError

fun is_Exception :: "py_exn \<Rightarrow> bool" where
  "is_Exception CancelledError = False"
| "is_Exception e = True"

definition quote_str :: "string \<Rightarrow> string" where
  "quote_str k = CHR 0x27 # k @ [CHR 0x27]"

text \<open>\<open>d.get(k)\<close> on a dict: the value, or \<open>None\<close>.\<close>

definition py_get :: "(string \<times> json) list \<Rightarrow> string \<Rightarrow> json" where
  "py_get d k = (case map_of d k of Some v \<Rightarrow> v | None \<Rightarrow> JNull)"

text \<open>\<open>d[k]\<close> on a dict.\<close>

definition py_dict_item :: "(string \<times> json) list \<Rightarrow> string \<Rightarrow> py_exn + json" where
  "py_dict_item d k = (case map_of d k of Some v \<Rightarrow> Inr v | None \<Rightarrow> Inl (KeyError (quote_str k)))"

text \<open>\<open>v[k]\<close> for a string key \<open>k\<close> and \<open>v[0]\<close>, on any value.\<close>

fun py_getitem :: "json \<Rightarrow> string \<Rightarrow> py_exn + json" where
  "py_getitem (JObj d) k = py_dict_item d k"
| "py_getitem v k = Inl TypeError"

fun py_getitem0 :: "json \<Rightarrow> py_exn + json" where
  "py_getitem0 (JArr []) = Inl (IndexError ''list index out of range'')"
| "py_getitem0 (JArr (x # xs)) = Inr x"
| "py_getitem0 (JStr []) = Inl (IndexError ''string index out of range'')"
| "py_getitem0 (JStr (c # s)) = Inr (JStr [c])"
| "py_getitem0 (JObj d) = Inl (KeyError ''0'')"
| "py_getitem0 v = Inl TypeError"

text \<open>
  \<open>v[i:j]\<close> for \<open>0 \<le> i \<le> j\<close>. Slicing a string or a list never raises: it returns what
  lies in range. A dict rejects the slice as a key (TypeError, Python 3.9 to 3.11); None,
  booleans and numbers are not subscriptable.
\<close>

fun py_slice :: "json \<Rightarrow> nat \<Rightarrow> nat \<Rightarrow> py_exn + json" where
  "py_slice (JStr s) i j = Inr (JStr (take (j - i) (drop i s)))"
| "py_slice (JArr xs) i j = Inr (JArr (take (j - i) (drop i xs)))"
| "py_slice v i j = Inl TypeError"

text \<open>
  A value inside an f-string: a string prints as itself; the parameter \<open>py_str\<close> stands
  for Python's \<open>str\<close> on every other value.
\<close>

definition py_format :: "(json \<Rightarrow> string) \<Rightarrow> json \<Rightarrow> string" where
  "py_format py_str v = (case v of JStr s \<Rightarrow> s | _ \<Rightarrow> py_str v)"

text \<open>Attribute access on a resource: the field of that name, or AttributeError.\<close>

fun py_getattr :: "json \<Rightarrow> string \<Rightarrow> py_exn + json" where
  "py_getattr (JObj d) k = (case map_of d k of Some v \<Rightarrow> Inr v | None \<Rightarrow> Inl AttributeError)"
| "py_getattr v k = Inl AttributeError"

definition py_assert :: "bool \<Rightarrow> py_exn + unit" where
  "py_assert b = (if b then Inr () else Inl AssertionError)"

subsection \<open>translation\_tools.convert\_hl7\_to\_fhir\<close>

text \<open>
  \<^verbatim>\<open>
  try:
      fhir_patient = {
          "resourceType": "Patient",
          "identifier": [{"system": "urn:clinic:patient-id",
                          "value": hl7_data.get("patientId")}],
          "name": [{"family": hl7_data.get("lastName"),
                    "given": [hl7_data.get("firstName")]}],
          "birthDate": f"{hl7_data['dateOfBirth'][0:4]}-{hl7_data['dateOfBirth'][4:6]}-{hl7_data['dateOfBirth'][6:8]}"
      }
      return fhir_patient
  except (KeyError, IndexError) as e:
      raise ValueError(f"Missing or malformed HL7 data: {e}")
  \<close>
  \<open>convert_body\<close> is the try block, \<open>convert_hl7_to_fhir\<close> the whole routine.
\<close>

definition convert_body :: "(json \<Rightarrow> string) \<Rightarrow> (string \<times> json) list \<Rightarrow> py_exn + json" where
  "convert_body py_str hl7_data =
     bindE (py_dict_item hl7_data ''dateOfBirth'') (\<lambda>dob1.
     bindE (py_slice dob1 0 4) (\<lambda>year.
     bindE (py_dict_item hl7_data ''dateOfBirth'') (\<lambda>dob2.
     bindE (py_slice dob2 4 6) (\<lambda>month.
     bindE (py_dict_item hl7_data ''dateOfBirth'') (\<lambda>dob3.
     bindE (py_slice dob3 6 8) (\<lambda>day.
     Inr (JObj
       [(''resourceType'', JStr ''Patient''),
        (''identifier'', JArr [JObj [(''system'', JStr ''urn:clinic:patient-id''),
                                     (''value'', py_get hl7_data ''patientId'')]]),
        (''name'', JArr [JObj [(''family'', py_get hl7_data ''lastName''),
                               (''given'', JArr [py_get hl7_data ''firstName''])]]),
        (''birthDate'', JStr (py_format py_str year @ ''-'' @ py_format py_str month
                               @ ''-'' @ py_format py_str day))])))))))"

definition convert_hl7_to_fhir :: "(json \<Rightarrow> string) \<Rightarrow> (string \<times> json) list \<Rightarrow> py_exn + json" where
  "convert_hl7_to_fhir py_str hl7_data =
     (case convert_body py_str hl7_data of
        Inl (KeyError e) \<Rightarrow> Inl (ValueError (''Missing or malformed HL7 data: '' @ e))
      | Inl (IndexError e) \<Rightarrow> Inl (ValueError (''Missing or malformed HL7 data: '' @ e))
      | Inl e \<Rightarrow> Inl e
      | Inr fhir_patient \<Rightarrow> Inr fhir_patient)"

subsection \<open>validation\_service.validate\_fhir\_patient\<close>

text \<open>
  \<^verbatim>\<open>
  try:
      Patient = Resource.from_data(fhir_data)
      assert Patient.resource_type == "Patient"
      assert Patient.name[0].family is not None
      return True
  except Exception:
      return False
  \<close>
  \<open>Resource.from_data\<close> belongs to the resource library, which is not part of the
  source. It is taken as follows: it raises for data it does not accept, which the
  parameter \<open>resource_ok\<close> decides, and otherwise returns a resource whose attributes are
  the fields of the data (\<open>resource_type\<close> the field \<open>resourceType\<close>). What the library
  accepts is left open: a property that is to hold of the validator has to hold for every
  \<open>resource_ok\<close>. \<open>validate_body\<close> is the try block.
\<close>

definition from_data :: "(json \<Rightarrow> bool) \<Rightarrow> json \<Rightarrow> py_exn + json" where
  "from_data resource_ok fhir_data = (if resource_ok fhir_data then Inr fhir_data else Inl ResourceError)"

definition validate_body :: "(json \<Rightarrow> bool) \<Rightarrow> json \<Rightarrow> py_exn + bool" where
  "validate_body resource_ok fhir_data =
     bindE (from_data resource_ok fhir_data) (\<lambda>Patient.
     bindE (py_getattr Patient ''resourceType'') (\<lambda>resource_type.
     bindE (py_assert (resource_type = JStr ''Patient'')) (\<lambda>u1.
     bindE (py_getattr Patient ''name'') (\<lambda>name.
     bindE (py_getitem0 name) (\<lambda>name0.
     bindE (py_getattr name0 ''family'') (\<lambda>family.
     bindE (py_assert (family \<noteq> JNull)) (\<lambda>u2.
     Inr True)))))))"

definition validate_fhir_patient :: "(json \<Rightarrow> bool) \<Rightarrow> json \<Rightarrow> py_exn + bool" where
  "validate_fhir_patient resource_ok fhir_data =
     (case validate_body resource_ok fhir_data of
        Inr b \<Rightarrow> Inr b
      | Inl e \<Rightarrow> if is_Exception e then Inr False else Inl e)"

subsection \<open>main.translate\_data\<close>

text \<open>
  How a request ends when it does not succeed: one of the four HTTPException of the
  handler, or an exception that the handler does not catch.
\<close>

datatype failure =
    AIServiceError py_exn
  | TranslationError string
  | UnknownTool json
  | ValidationFailed
  | Unhandled py_exn

fun status_code :: "failure \<Rightarrow> nat" where
  "status_code (AIServiceError e) = 500"
| "status_code (TranslationError m) = 400"
| "status_code (UnknownTool n) = 400"
| "status_code ValidationFailed = 500"
| "status_code (Unhandled e) = 500"

definition AVAILABLE_TOOLS ::
  "(json \<Rightarrow> string) \<Rightarrow> (string \<times> ((string \<times> json) list \<Rightarrow> py_exn + json)) list" where
  "AVAILABLE_TOOLS py_str = [(''convert_hl7_to_fhir'', convert_hl7_to_fhir py_str)]"

definition extract_tool_name :: "json \<Rightarrow> py_exn + json" where
  "extract_tool_name ai_response =
     bindE (py_getitem ai_response ''choices'') (\<lambda>choices.
     bindE (py_getitem0 choices) (\<lambda>choice.
     bindE (py_getitem choice ''message'') (\<lambda>message.
     bindE (py_getitem message ''tool_calls'') (\<lambda>tool_calls.
     bindE (py_getitem0 tool_calls) (\<lambda>tool_call.
     bindE (py_getitem tool_call ''function'') (\<lambda>func.
     py_getitem func ''name''))))))"

text \<open>
  \<open>tool_name in AVAILABLE_TOOLS\<close> hashes the name first: a list or a dict is not hashable
  and raises TypeError; any other value that is not a registered string is simply absent.
\<close>

fun lookup_tool ::
  "(string \<times> 'f) list \<Rightarrow> json \<Rightarrow> py_exn + 'f option" where
  "lookup_tool tools (JStr n) = Inr (map_of tools n)"
| "lookup_tool tools (JArr xs) = Inl TypeError"
| "lookup_tool tools (JObj d) = Inl TypeError"
| "lookup_tool tools v = Inr None"

text \<open>
  \<open>translate_data ai resource_ok py_str data\<close> is the handler on \<open>request.data\<close>. The
  parameter \<open>ai\<close> is the outcome of the call to the decision service. The first component
  of the result lists the names of the tools that were executed.
  \<^verbatim>\<open>
  try:
      ai_response = await ai_service.get_ai_translation_instruction(request.data)
      tool_call = ai_response["choices"][0]["message"]["tool_calls"][0]
      tool_name = tool_call["function"]["name"]
  except Exception as e:
      raise HTTPException(status_code=500, detail=f"AI service error: {e}")
  if tool_name in AVAILABLE_TOOLS:
      function_to_call = AVAILABLE_TOOLS[tool_name]
      try:
          translated_data = function_to_call(request.data)
      except ValueError as e:
          raise HTTPException(status_code=400, detail=f"Translation error: {e}")
  else:
      raise HTTPException(status_code=400, detail=f"Unknown tool requested by AI: {tool_name}")
  is_valid = validation_service.validate_fhir_patient(translated_data)
  if not is_valid:
      raise HTTPException(status_code=500, detail="Validation Failed: ...")
  return TranslationResponse(status="success", translated_data=translated_data)
  \<close>
\<close>

definition translate_data ::
  "((string \<times> json) list \<Rightarrow> py_exn + json) \<Rightarrow> (json \<Rightarrow> bool) \<Rightarrow> (json \<Rightarrow> string)
     \<Rightarrow> (string \<times> json) list \<Rightarrow> json list \<times> (failure + json)" where
  "translate_data ai resource_ok py_str data =
     (case bindE (ai data) extract_tool_name of
        Inl e \<Rightarrow> ([], Inl (if is_Exception e then AIServiceError e else Unhandled e))
      | Inr tool_name \<Rightarrow>
          (case lookup_tool (AVAILABLE_TOOLS py_str) tool_name of
             Inl e \<Rightarrow> ([], Inl (Unhandled e))
           | Inr None \<Rightarrow> ([], Inl (UnknownTool tool_name))
           | Inr (Some function_to_call) \<Rightarrow>
               (case function_to_call data of
                  Inl (ValueError m) \<Rightarrow> ([tool_name], Inl (TranslationError m))
                | Inl e \<Rightarrow> ([tool_name], Inl (Unhandled e))
                | Inr translated_data \<Rightarrow>
                    (case validate_fhir_patient resource_ok translated_data of
                       Inl e \<Rightarrow> ([tool_name], Inl (Unhandled e))
                     | Inr is_valid \<Rightarrow>
                         if \<not> is_valid
                         then ([tool_name], Inl ValidationFailed)
                         else ([tool_name], Inr translated_data)))))"

subsection \<open>Concrete payloads, records and stores\<close>

text \<open>The translated resource of the README's example request.\<close>

definition example_fhir :: json where
  "example_fhir =
     JObj [(''resourceType'', JStr ''Patient''),
           (''identifier'', JArr [JObj [(''system'', JStr ''urn:clinic:patient-id''),
                                        (''value'', JStr ''C123'')]]),
           (''name'', JArr [JObj [(''family'', JStr ''Dela Cruz''),
                                  (''given'', JArr [JStr ''Juan''])]]),
           (''birthDate'', JStr ''1980-01-01'')]"

definition example_record :: patient_record where
  "example_record =
     \<lparr> details = \<lparr> patient_id = JStr ''C123'',
                     given_name = JStr ''Juan'',
                     family_name = JStr ''Dela Cruz'',
                     full_name = ''Juan Dela Cruz'',
                     birth_date = JStr ''1980-01-01'',
                     gender = JStr ''Unknown'',
                     original_fhir = Some example_fhir \<rparr>,
       received_timestamp = ''2025-01-01T00:00:00.000Z'',
       status = ''pending'' \<rparr>"

definition healthy_file :: "patient_record list \<Rightarrow> store_file" where
  "healthy_file xs = \<lparr> content = Some xs, write_ok = True \<rparr>"

definition readonly_file :: "patient_record list \<Rightarrow> store_file" where
  "readonly_file xs = \<lparr> content = Some xs, write_ok = False \<rparr>"

text \<open>A store whose pending file holds one record and cannot be written.\<close>

definition stuck_pending_store :: store where
  "stuck_pending_store =
     \<lparr> pending_queue = readonly_file [example_record],
       received_patients = healthy_file [] \<rparr>"

definition empty_store :: store where
  "empty_store = \<lparr> pending_queue = healthy_file [], received_patients = healthy_file [] \<rparr>"

definition one_pending_store :: store where
  "one_pending_store =
     \<lparr> pending_queue = healthy_file [example_record], received_patients = healthy_file [] \<rparr>"

definition committed_example_store :: store where
  "committed_example_store =
     \<lparr> pending_queue = healthy_file [], received_patients = healthy_file [example_record] \<rparr>"




text \<open>
  A resource whose identifier value is an object with an own property \<open>toString\<close>, the
  record extraction gives for it, and a record received while a commit is in progress.
\<close>

definition unprintable_id_fhir :: json where
  "unprintable_id_fhir =
     JObj [(''resourceType'', JStr ''Patient''),
           (''identifier'', JArr [JObj [(''value'', JObj [(''toString'', JNum 1)])]])]"

definition unprintable_id_record :: patient_record where
  "unprintable_id_record =
     \<lparr> details = \<lparr> patient_id = JObj [(''toString'', JNum 1)],
                     given_name = JStr ''Unknown'',
                     family_name = JStr ''Unknown'',
                     full_name = ''Unknown Unknown'',
                     birth_date = JStr ''Unknown'',
                     gender = JStr ''Unknown'',
                     original_fhir = Some unprintable_id_fhir \<rparr>,
       received_timestamp = ''2025-01-01T00:00:00.000Z'',
       status = ''pending'' \<rparr>"

definition late_record :: patient_record where
  "late_record =
     \<lparr> details = error_details None,
       received_timestamp = ''2025-01-01T00:00:01.000Z'',
       status = ''pending'' \<rparr>"

text \<open>Source payloads of the translation service, and translated resources.\<close>

definition example_hl7 :: "(string \<times> json) list" where
  "example_hl7 =
     [(''patientId'', JStr ''C123''), (''firstName'', JStr ''Juan''),
      (''lastName'', JStr ''Dela Cruz''), (''dateOfBirth'', JStr ''19800101'')]"

definition short_date_hl7 :: "(string \<times> json) list" where
  "short_date_hl7 =
     [(''patientId'', JStr ''C123''), (''firstName'', JStr ''Juan''),
      (''lastName'', JStr ''Dela Cruz''), (''dateOfBirth'', JStr ''198001'')]"

definition no_id_hl7 :: "(string \<times> json) list" where
  "no_id_hl7 =
     [(''firstName'', JStr ''Juan''), (''lastName'', JStr ''Dela Cruz''),
      (''dateOfBirth'', JStr ''19800101'')]"

definition no_date_hl7 :: "(string \<times> json) list" where
  "no_date_hl7 =
     [(''patientId'', JStr ''C123''), (''firstName'', JStr ''Juan''),
      (''lastName'', JStr ''Dela Cruz'')]"

definition empty_family_fhir :: json where
  "empty_family_fhir =
     JObj [(''resourceType'', JStr ''Patient''),
           (''identifier'', JArr [JObj [(''system'', JStr ''urn:clinic:patient-id''),
                                        (''value'', JStr ''C123'')]]),
           (''name'', JArr [JObj [(''family'', JStr ''''),
                                  (''given'', JArr [JStr ''Juan''])]]),
           (''birthDate'', JStr ''1980-01-01'')]"

definition null_family_fhir :: json where
  "null_family_fhir =
     JObj [(''resourceType'', JStr ''Patient''),
           (''identifier'', JArr [JObj [(''system'', JStr ''urn:clinic:patient-id''),
                                        (''value'', JStr ''C123'')]]),
           (''name'', JArr [JObj [(''family'', JNull),
                                  (''given'', JArr [JStr ''Juan''])]]),
           (''birthDate'', JStr ''1980-01-01'')]"

text \<open>A reply of the decision service that selects the tool \<open>n\<close>.\<close>

definition ai_reply :: "string \<Rightarrow> json" where
  "ai_reply n =
     JObj [(''choices'', JArr [JObj [(''message'',
       JObj [(''tool_calls'', JArr [JObj [(''function'',
         JObj [(''name'', JStr n), (''arguments'', JStr ''{}'')])]])])]])]"

text \<open>A reply of the decision service whose tool name is a list.\<close>

definition list_name_reply :: json where
  "list_name_reply =
     JObj [(''choices'', JArr [JObj [(''message'',
       JObj [(''tool_calls'', JArr [JObj [(''function'',
         JObj [(''name'', JArr [JStr ''convert_hl7_to_fhir'']),
               (''arguments'', JStr ''{}'')])]])])]])]"

subsection \<open>Notions used to state the properties\<close>

text \<open>\<open>contains_ci s t\<close>: the string \<open>s\<close> contains \<open>t\<close> as a substring, ignoring case.\<close>

definition contains_ci :: "string \<Rightarrow> string \<Rightarrow> bool" where
  "contains_ci s t = (\<exists>pre post. toLowerCase s = pre @ toLowerCase t @ post)"

text \<open>
  A record matches a search term when its patient identifier or its composed full name
  contains the term, ignoring case.
\<close>

definition spec_search_match :: "string \<Rightarrow> patient_record \<Rightarrow> bool" where
  "spec_search_match t r =
     ((\<exists>pid. patient_id (details r) = JStr pid \<and> contains_ci pid t)
      \<or> contains_ci (full_name (details r)) t)"

text \<open>The family-name field of the first name block of a resource, when there is one.\<close>

definition name_family :: "json \<Rightarrow> json option" where
  "name_family d =
     (case d of
        JObj kvs \<Rightarrow>
          (case map_of kvs ''name'' of
             Some (JArr (JObj n # rest)) \<Rightarrow> map_of n ''family''
           | _ \<Rightarrow> None)
      | _ \<Rightarrow> None)"

section \<open>Properties of the receiving boundary\<close>

subsection \<open>Helper facts\<close>

lemma bindE_Inr_iff: "bindE r f = Inr y \<longleftrightarrow> (\<exists>v. r = Inr v \<and> f v = Inr y)"
  by (cases r) (simp_all add: bindE_def)

lemma bindE_simps [simp]: "bindE (Inr v) f = f v" "bindE (Inl e) f = Inl e"
  by (simp_all add: bindE_def)

lemma show_nat_0: "show_nat 0 = ''0''"
  by code_simp

lemma show_nat_1: "show_nat (Suc 0) = ''1''"
  by code_simp

lemma run_alone_Finished: "run_alone (Finished r) s = (s, r)"
  by (subst run_alone.simps) simp

lemma run_alone_commit:
  "run_alone CommitStart s = run_alone (CommitLoaded (loadJsonFile (pending_queue s))) s"
  "run_alone (CommitLoaded p) s = run_alone (CommitMerged p (loadJsonFile (received_patients s) @ p)) s"
  "run_alone (CommitMerged p r) s =
     run_alone (CommitSaved p) (s\<lparr>received_patients := fst (saveJsonFile (received_patients s) r)\<rparr>)"
  "run_alone (CommitSaved p) s =
     (s\<lparr>pending_queue := fst (saveJsonFile (pending_queue s) [])\<rparr>,
      Reply 200 (ProcessBody True (show_nat (length p) @ '' records have been processed'')))"
  by (subst run_alone.simps, simp add: run_alone_Finished)+

lemma run_alone_receipt:
  "run_alone (ReceiptStart r) s = run_alone (ReceiptLoaded r (loadJsonFile (pending_queue s) @ [r])) s"
  "run_alone (ReceiptLoaded r q) s =
     (s\<lparr>pending_queue := fst (saveJsonFile (pending_queue s) q)\<rparr>, receipt_reply (details r))"
  by (subst run_alone.simps, simp add: run_alone_Finished)+

lemma process_pending_expand:
  "process_pending s =
     (s\<lparr>pending_queue := fst (saveJsonFile (pending_queue s) []),
        received_patients := fst (saveJsonFile (received_patients s) (committed s @ pending s))\<rparr>,
      Reply 200 (ProcessBody True (show_nat (length (pending s)) @ '' records have been processed'')))"
  by (simp add: process_pending_def run_alone_commit committed_def pending_def)

lemma post_fhir_patient_expand:
  "post_fhir_patient g p now s =
     (s\<lparr>pending_queue := fst (saveJsonFile (pending_queue s)
          (pending s @ [\<lparr> details = extractPatientDetails g p, received_timestamp = now,
                            status = ''pending'' \<rparr>]))\<rparr>,
      receipt_reply (extractPatientDetails g p))"
  by (simp add: post_fhir_patient_def Let_def run_alone_receipt pending_def)

lemmas store_defs =
  committed_def pending_def loadJsonFile_def saveJsonFile_def healthy_file_def readonly_file_def

subsection \<open>The commit operation\<close>

text \<open>
  A commit that runs with no other request in between and whose two writes succeed leaves
  the pending set empty and appends the batch to the committed set.
\<close>

lemma commit_alone_writable:
  assumes "write_ok (pending_queue s)" and "write_ok (received_patients s)"
  shows "pending (fst (process_pending s)) = []"
    and "committed (fst (process_pending s)) = committed s @ pending s"
  using assms by (simp_all add: process_pending_expand store_defs)

text \<open>
  C1. The claim: the pending set and the committed set are disjoint at all times, and a
  commit moves all pending records or changes nothing. The handler drops the result of
  both saves: with a pending file that cannot be written, the committed file receives the
  batch, the pending file keeps it, the reply is the success reply, and the record is in
  both sets.
\<close>

theorem commit_duplicates_batch:
  "pending stuck_pending_store = [example_record]
   \<and> committed stuck_pending_store = []
   \<and> pending (fst (process_pending stuck_pending_store)) = [example_record]
   \<and> committed (fst (process_pending stuck_pending_store)) = [example_record]
   \<and> set (pending (fst (process_pending stuck_pending_store)))
        \<inter> set (committed (fst (process_pending stuck_pending_store))) \<noteq> {}
   \<and> snd (process_pending stuck_pending_store)
       = Reply 200 (ProcessBody True ''1 records have been processed'')"
  by (simp add: process_pending_expand stuck_pending_store_def store_defs show_nat_1)

text \<open>
  The handlers take no lock. When a receipt completes between the commit's read of the
  pending file and its write that clears it, the received record is acknowledged and ends
  up in neither set, although every file operation succeeds.
\<close>

lemma receipt_lost_during_commit:
  "run_schedule [0, 1, 1, 0, 0, 0] [CommitStart, ReceiptStart late_record] one_pending_store
     = ([Finished (Reply 200 (ProcessBody True ''1 records have been processed'')),
         Finished (Reply 200 (StatusBody ''success''
           ''Patient data for Error processing patient data received and pending review.''))],
        \<lparr> pending_queue = healthy_file [], received_patients = healthy_file [example_record] \<rparr>)"
  by (simp add: one_pending_store_def store_defs late_record_def error_details_def
      receipt_reply_def log_line_def show_nat_1)

text \<open>
  C7. The claim: a second commit right after a first one leaves the committed set
  unchanged and reports zero records. The handler drops the result of clearing the pending
  file: when that write fails, the second commit appends the same batch again and reports
  one record.
\<close>

theorem second_commit_repeats_batch:
  "committed (fst (process_pending stuck_pending_store)) = [example_record]
   \<and> committed (fst (process_pending (fst (process_pending stuck_pending_store))))
       = [example_record, example_record]
   \<and> snd (process_pending (fst (process_pending stuck_pending_store)))
       = Reply 200 (ProcessBody True ''1 records have been processed'')"
  by (simp add: process_pending_expand stuck_pending_store_def store_defs show_nat_1)

text \<open>
  When the first commit clears the pending file, the second one changes nothing and
  reports zero records.
\<close>

lemma second_commit_after_cleared:
  assumes "write_ok (pending_queue s)"
  shows "fst (process_pending (fst (process_pending s))) = fst (process_pending s)"
    and "snd (process_pending (fst (process_pending s)))
           = Reply 200 (ProcessBody True ''0 records have been processed'')"
  using assms by (simp_all add: process_pending_expand store_defs show_nat_0)

subsection \<open>Receipt of a resource\<close>

lemma extract_example:
  "extractPatientDetails g (Some example_fhir) = details example_record"
  by (simp add: extractPatientDetails_def extract_body_def example_fhir_def example_record_def
      js_or_def Let_def)


lemma extract_body_Inr:
  assumes "extract_body g p = Inr d"
  shows "\<exists>family gs fs. family_name d = js_or family (JStr ''Unknown'')
           \<and> to_str (family_name d) = Inr fs \<and> full_name d = gs @ '' '' @ fs"
    and "original_fhir d = p"
  using assms unfolding extract_body_def Let_def
  by (auto simp: bindE_Inr_iff)









text \<open>
  A payload whose identifier value cannot be printed is stored, and the request is then
  answered with status 500, because the log line throws after the save.
\<close>

lemma receipt_log_failure:
  "extractPatientDetails g (Some unprintable_id_fhir) = details unprintable_id_record
   \<and> post_fhir_patient g (Some unprintable_id_fhir) ''2025-01-01T00:00:00.000Z'' empty_store
       = (\<lparr> pending_queue = healthy_file [unprintable_id_record],
            received_patients = healthy_file [] \<rparr>,
          Reply 500 (ErrorBody ''Failed to process patient data''))"
proof -
  have x: "extractPatientDetails g (Some unprintable_id_fhir) = details unprintable_id_record"
    by (simp add: extractPatientDetails_def extract_body_def unprintable_id_fhir_def
        unprintable_id_record_def js_or_def Let_def)
  have r: "receipt_reply (details unprintable_id_record)
      = Reply 500 (ErrorBody ''Failed to process patient data'')"
    by (simp add: receipt_reply_def log_line_def unprintable_id_record_def)
  have rec: "\<lparr> details = details unprintable_id_record,
               received_timestamp = ''2025-01-01T00:00:00.000Z'', status = ''pending'' \<rparr>
      = unprintable_id_record"
    by (simp add: unprintable_id_record_def)
  show ?thesis
    by (simp add: post_fhir_patient_expand x r rec empty_store_def store_defs)
qed

text \<open>
  C5. The claim: a receipt is acknowledged as success only if the record was appended to
  the pending set. The handler drops the result of \<open>saveJsonFile\<close>: with a pending file that
  cannot be written, the store is unchanged and the reply is still the success reply.
\<close>

theorem receipt_acknowledged_without_append:
  "pending stuck_pending_store = [example_record]
   \<and> fst (post_fhir_patient g (Some example_fhir) now stuck_pending_store) = stuck_pending_store
   \<and> pending (fst (post_fhir_patient g (Some example_fhir) now stuck_pending_store))
       = [example_record]
   \<and> snd (post_fhir_patient g (Some example_fhir) now stuck_pending_store)
       = Reply 200 (StatusBody ''success''
           ''Patient data for Juan Dela Cruz received and pending review.'')"
  by (simp add: post_fhir_patient_expand extract_example stuck_pending_store_def store_defs
      example_record_def receipt_reply_def log_line_def)

subsection \<open>Search\<close>

lemma includes_str_iff: "includes_str s t \<longleftrightarrow> (\<exists>pre post. s = pre @ t @ post)"
proof (induction s)
  case Nil
  then show ?case by simp
next
  case (Cons c s)
  show ?case
  proof
    assume "includes_str (c # s) t"
    then consider "prefix t (c # s)" | "includes_str s t" by auto
    then show "\<exists>pre post. c # s = pre @ t @ post"
    proof cases
      case 1
      then obtain post where "c # s = t @ post" by (auto simp: prefix_def)
      then have "c # s = [] @ t @ post" by simp
      then show ?thesis by blast
    next
      case 2
      with Cons.IH obtain pre post where "s = pre @ t @ post" by blast
      then have "c # s = (c # pre) @ t @ post" by simp
      then show ?thesis by blast
    qed
  next
    assume "\<exists>pre post. c # s = pre @ t @ post"
    then obtain pre post where eq: "c # s = pre @ t @ post" by blast
    show "includes_str (c # s) t"
    proof (cases pre)
      case Nil
      with eq have "prefix t (c # s)" by (simp add: prefix_def)
      then show ?thesis by simp
    next
      case (Cons a pre')
      with eq have "s = pre' @ t @ post" by simp
      with Cons.IH have "includes_str s t" by blast
      then show ?thesis by simp
    qed
  qed
qed

lemma contains_ci_code: "contains_ci s t = includes_str (toLowerCase s) (toLowerCase t)"
  by (simp add: contains_ci_def includes_str_iff)

lemma contains_ci_Nil: "contains_ci s []"
  unfolding contains_ci_def toLowerCase_def
  by (intro exI [of _ "[]"] exI [of _ "map to_lower_char s"]) simp

lemma toLowerCase_append: "toLowerCase (a @ b) = toLowerCase a @ toLowerCase b"
  by (simp add: toLowerCase_def)

lemma filterE_all_Inr:
  "\<forall>x \<in> set xs. p x = Inr (q x) \<Longrightarrow> filterE p xs = Inr (filter q xs)"
  by (induction xs) simp_all

lemma search_match_str:
  "patient_id (details r) = JStr pid \<Longrightarrow>
   search_match (toLowerCase q) r = Inr (spec_search_match q r)"
  by (simp add: search_match_def spec_search_match_def contains_ci_def includes_str_iff)

lemma truthy_JStr_js_or: "js_or v (JStr d) = JStr F \<Longrightarrow> d \<noteq> [] \<Longrightarrow> F \<noteq> []"
  by (cases v) (auto simp: js_or_def split: if_splits)

lemma family_in_full_name:
  assumes "family_name (extractPatientDetails g p) = JStr F"
  shows "F \<noteq> [] \<and> (\<exists>pre post. full_name (extractPatientDetails g p) = pre @ F @ post)"
proof (cases "extract_body g p")
  case (Inl e)
  then have d: "extractPatientDetails g p = error_details p"
    by (simp add: extractPatientDetails_def)
  with assms have F: "F = ''Error''" by (simp add: error_details_def)
  have "full_name (error_details p) = [] @ ''Error'' @ '' processing patient data''"
    by (simp add: error_details_def)
  with d F show ?thesis by (metis list.distinct(1))
next
  case (Inr d)
  then have e: "extractPatientDetails g p = d" by (simp add: extractPatientDetails_def)
  from extract_body_Inr(1) [OF Inr] obtain family gs fs where
    f: "family_name d = js_or family (JStr ''Unknown'')" and
    t: "to_str (family_name d) = Inr fs" and n: "full_name d = gs @ '' '' @ fs" by blast
  from assms e have fam: "family_name d = JStr F" by simp
  with t have "fs = F" by simp
  with n have "full_name d = (gs @ '' '') @ F @ []" by simp
  moreover from f fam have "F \<noteq> []" using truthy_JStr_js_or [of family "''Unknown''" F] by simp
  ultimately show ?thesis using e by blast
qed

text \<open>
  C9 (as amended). A search without a term or with the empty term returns no record. For
  a non-empty term, when the patient identifier of every committed record is a string, the
  search returns exactly the committed records, in store order, whose patient identifier or
  full name contains the term ignoring case; a committed record that extraction produced
  with a family name equal to the term is among them.
\<close>

theorem search_returns_matches:
  "get_search None s = Reply 200 (Records [])
   \<and> get_search (Some []) s = Reply 200 (Records [])
   \<and> (q \<noteq> [] \<and> (\<forall>r \<in> set (committed s). \<exists>pid. patient_id (details r) = JStr pid) \<longrightarrow>
        get_search (Some q) s = Reply 200 (Records (filter (spec_search_match q) (committed s)))
        \<and> (\<forall>r \<in> set (committed s). \<forall>g p.
              details r = extractPatientDetails g p \<and> family_name (details r) = JStr q \<longrightarrow>
              r \<in> set (filter (spec_search_match q) (committed s))))"
proof (intro conjI impI)
  show "get_search None s = Reply 200 (Records [])" by (simp add: get_search_def)
  show "get_search (Some []) s = Reply 200 (Records [])" by (simp add: get_search_def)
next
  assume h: "q \<noteq> [] \<and> (\<forall>r \<in> set (committed s). \<exists>pid. patient_id (details r) = JStr pid)"
  then have "\<forall>r \<in> set (committed s). search_match (toLowerCase q) r = Inr (spec_search_match q r)"
    using search_match_str by blast
  then have "filterE (search_match (toLowerCase q)) (committed s)
      = Inr (filter (spec_search_match q) (committed s))"
    by (rule filterE_all_Inr)
  with h show "get_search (Some q) s = Reply 200 (Records (filter (spec_search_match q) (committed s)))"
    by (simp add: get_search_def committed_def)
next
  assume h: "q \<noteq> [] \<and> (\<forall>r \<in> set (committed s). \<exists>pid. patient_id (details r) = JStr pid)"
  show "\<forall>r \<in> set (committed s). \<forall>g p.
              details r = extractPatientDetails g p \<and> family_name (details r) = JStr q \<longrightarrow>
              r \<in> set (filter (spec_search_match q) (committed s))"
  proof (intro ballI allI impI)
    fix r g p
    assume r: "r \<in> set (committed s)"
      and d: "details r = extractPatientDetails g p \<and> family_name (details r) = JStr q"
    from d have "family_name (extractPatientDetails g p) = JStr q" by (elim conjE) simp
    from family_in_full_name [OF this] d obtain pre post where
      "full_name (details r) = pre @ q @ post" by auto
    then have "toLowerCase (full_name (details r))
        = toLowerCase pre @ toLowerCase q @ toLowerCase post"
      by (simp add: toLowerCase_append)
    then have "contains_ci (full_name (details r)) q"
      unfolding contains_ci_def by blast
    then have "spec_search_match q r" by (simp add: spec_search_match_def)
    with r show "r \<in> set (filter (spec_search_match q) (committed s))" by simp
  qed
qed

theorem search_returns_matches_witness:
  "''Dela Cruz'' \<noteq> []
   \<and> committed committed_example_store = [example_record]
   \<and> patient_id (details example_record) = JStr ''C123''
   \<and> example_record \<in> set (committed committed_example_store)
   \<and> details example_record = extractPatientDetails (\<lambda>x. False) (Some example_fhir)
   \<and> family_name (details example_record) = JStr ''Dela Cruz''
   \<and> get_search (Some ''Dela Cruz'') committed_example_store = Reply 200 (Records [example_record])"
proof -
  have c: "committed committed_example_store = [example_record]"
    by (simp add: committed_example_store_def store_defs)
  have ids: "\<forall>r \<in> set (committed committed_example_store). \<exists>pid. patient_id (details r) = JStr pid"
    by (simp add: c example_record_def)
  have fam: "family_name (details example_record) = JStr ''Dela Cruz''"
    by (simp add: example_record_def)
  have ex: "details example_record = extractPatientDetails (\<lambda>x. False) (Some example_fhir)"
    by (simp add: extract_example)
  from search_returns_matches [of committed_example_store "''Dela Cruz''"] ids
  have res: "get_search (Some ''Dela Cruz'') committed_example_store
      = Reply 200 (Records (filter (spec_search_match ''Dela Cruz'') (committed committed_example_store)))"
    and mem: "\<forall>r \<in> set (committed committed_example_store). \<forall>g p.
              details r = extractPatientDetails g p \<and> family_name (details r) = JStr ''Dela Cruz'' \<longrightarrow>
              r \<in> set (filter (spec_search_match ''Dela Cruz'') (committed committed_example_store))"
    by simp_all
  have "example_record \<in> set (committed committed_example_store)"
    by (simp add: c)
  with mem ex fam
  have "example_record \<in> set (filter (spec_search_match ''Dela Cruz'') (committed committed_example_store))"
    by blast
  then have "spec_search_match ''Dela Cruz'' example_record"
    by simp
  then have "filter (spec_search_match ''Dela Cruz'') [example_record] = [example_record]"
    by simp
  moreover have "patient_id (details example_record) = JStr ''C123''"
    by (simp add: example_record_def)
  ultimately show ?thesis using res fam ex by (simp add: c)
qed

text \<open>
  The claim as stated fails for the empty term: every record contains it, and the route
  returns none.
\<close>

theorem search_empty_term_counterexample:
  "committed committed_example_store = [example_record]
   \<and> filter (spec_search_match []) (committed committed_example_store) = [example_record]
   \<and> get_search (Some []) committed_example_store = Reply 200 (Records [])"
  by (simp add: committed_example_store_def store_defs spec_search_match_def contains_ci_Nil
      get_search_def)

text \<open>
  Receiving the translated example resource in an empty store and committing it gives the
  store that the search above was run on.
\<close>

lemma enqueue_commit_example:
  "fst (process_pending (fst (post_fhir_patient g (Some example_fhir)
      ''2025-01-01T00:00:00.000Z'' empty_store))) = committed_example_store"
  by (simp add: process_pending_expand post_fhir_patient_expand extract_example
       empty_store_def committed_example_store_def store_defs example_record_def)

section \<open>Properties of the interoperability service\<close>

subsection \<open>The validator\<close>

lemma bindE_Inl_iff: "bindE r f = Inl e \<longleftrightarrow> r = Inl e \<or> (\<exists>v. r = Inr v \<and> f v = Inl e)"
  by (cases r) simp_all

lemma py_getattr_raises: "py_getattr v k = Inl e \<Longrightarrow> e = AttributeError"
  by (cases v) (auto split: option.splits)

lemma py_getitem0_raises: "py_getitem0 v = Inl e \<Longrightarrow> is_Exception e"
  by (cases v rule: py_getitem0.cases) auto

lemma validate_body_raises: "validate_body ok d = Inl e \<Longrightarrow> is_Exception e"
  unfolding validate_body_def
  by (auto simp: bindE_Inl_iff from_data_def py_assert_def
      dest: py_getattr_raises py_getitem0_raises split: if_splits)

text \<open>
  C8. For every input, validate\_fhir\_patient returns True or False and propagates no
  exception; whenever the traversal raises, the verdict is False.
\<close>

theorem validator_total:
  "(validate_fhir_patient ok d = Inr True \<or> validate_fhir_patient ok d = Inr False)
   \<and> (\<forall>e. validate_body ok d = Inl e \<longrightarrow> validate_fhir_patient ok d = Inr False)"
proof -
  have raised: "validate_fhir_patient ok d = Inr False" if "validate_body ok d = Inl e" for e
    using that validate_body_raises [OF that] by (simp add: validate_fhir_patient_def)
  show ?thesis
  proof (cases "validate_body ok d")
    case (Inl e)
    with raised show ?thesis by simp
  next
    case (Inr b)
    then show ?thesis by (cases b) (simp_all add: validate_fhir_patient_def)
  qed
qed

theorem validator_total_witness:
  "validate_body (\<lambda>d. True) JNull = Inl AttributeError
   \<and> validate_fhir_patient (\<lambda>d. True) JNull = Inr False"
proof -
  have b: "validate_body (\<lambda>d. True) JNull = Inl AttributeError"
    by (simp add: validate_body_def from_data_def)
  with validator_total [of "\<lambda>d. True" JNull] show ?thesis by simp
qed

lemma validate_body_family:
  assumes "validate_body ok d = Inr b"
  shows "\<exists>v. name_family d = Some v \<and> v \<noteq> JNull"
proof -
  from assms obtain name name0 family where
    n: "py_getattr d ''name'' = Inr name" and
    n0: "py_getitem0 name = Inr name0" and
    f: "py_getattr name0 ''family'' = Inr family" and
    a: "py_assert (family \<noteq> JNull) = Inr ()"
    unfolding validate_body_def
    by (auto simp: bindE_Inr_iff from_data_def split: if_splits)
  from n obtain kvs where d: "d = JObj kvs" and m: "map_of kvs ''name'' = Some name"
    by (cases d) (auto split: option.splits)
  from f obtain nkvs where k: "name0 = JObj nkvs" and fm: "map_of nkvs ''family'' = Some family"
    by (cases name0) (auto split: option.splits)
  from n0 k obtain rest where "name = JArr (JObj nkvs # rest)"
    by (cases name rule: py_getitem0.cases) auto
  with d m fm have "name_family d = Some family"
    by (simp add: name_family_def)
  moreover from a have "family \<noteq> JNull"
    by (simp add: py_assert_def split: if_splits)
  ultimately show ?thesis by blast
qed

text \<open>
  Whatever the resource library accepts and whatever the other fields are, the validator
  rejects every result whose first name block has no family field or has the family field
  None.
\<close>

lemma validate_rejects_missing_family:
  "name_family d = None \<or> name_family d = Some JNull \<Longrightarrow>
   validate_fhir_patient ok d = Inr False"
proof -
  assume h: "name_family d = None \<or> name_family d = Some JNull"
  show ?thesis
  proof (cases "validate_body ok d")
    case (Inl e)
    with validate_body_raises [OF Inl] show ?thesis
      by (simp add: validate_fhir_patient_def)
  next
    case (Inr b)
    from validate_body_family [OF Inr] h show ?thesis by auto
  qed
qed

lemma validate_null_family_example:
  "name_family null_family_fhir = Some JNull
   \<and> validate_fhir_patient ok null_family_fhir = Inr False"
proof -
  have a: "name_family null_family_fhir = Some JNull"
    by (simp add: name_family_def null_family_fhir_def)
  with validate_rejects_missing_family [of null_family_fhir ok] show ?thesis by simp
qed

text \<open>
  For a family name that is the empty string the assertions of the validator pass, since
  they compare the family name with None only: the verdict is then the one of the resource
  library, which the source does not determine.
\<close>

lemma validate_empty_family_follows_library:
  "name_family empty_family_fhir = Some (JStr [])
   \<and> validate_fhir_patient ok empty_family_fhir = Inr (ok empty_family_fhir)"
  by (simp add: name_family_def empty_family_fhir_def validate_fhir_patient_def
      validate_body_def from_data_def py_assert_def)

subsection \<open>The translation routine\<close>

lemma convert_body_string_date:
  "map_of d ''dateOfBirth'' = Some (JStr s) \<Longrightarrow>
   convert_body py_str d =
     Inr (JObj
       [(''resourceType'', JStr ''Patient''),
        (''identifier'', JArr [JObj [(''system'', JStr ''urn:clinic:patient-id''),
                                     (''value'', py_get d ''patientId'')]]),
        (''name'', JArr [JObj [(''family'', py_get d ''lastName''),
                               (''given'', JArr [py_get d ''firstName''])]]),
        (''birthDate'', JStr (take 4 s @ ''-'' @ take 2 (drop 4 s) @ ''-'' @ take 2 (drop 6 s)))])"
  by (simp add: convert_body_def py_dict_item_def py_format_def)

text \<open>
  For a date of eight characters the routine produces year, month and day joined by
  hyphens.
\<close>

lemma convert_date_eight:
  assumes "map_of d ''dateOfBirth'' = Some (JStr (y @ m @ dd))"
    and "length y = 4" "length m = 2" "length dd = 2"
  shows "\<exists>r. convert_hl7_to_fhir py_str d = Inr (JObj r)
           \<and> map_of r ''birthDate'' = Some (JStr (y @ ''-'' @ m @ ''-'' @ dd))"
  using assms
  by (simp add: convert_hl7_to_fhir_def convert_body_string_date)

text \<open>
  C2. The claim: a dateOfBirth string that is not exactly 8 digits long raises the
  malformed-data error. Slicing never raises, so the handler for IndexError is never
  entered: for the six-character date 198001 the routine returns a truncated birthDate.
\<close>

theorem convert_short_date_no_error:
  "convert_hl7_to_fhir py_str short_date_hl7 =
     Inr (JObj
       [(''resourceType'', JStr ''Patient''),
        (''identifier'', JArr [JObj [(''system'', JStr ''urn:clinic:patient-id''),
                                     (''value'', JStr ''C123'')]]),
        (''name'', JArr [JObj [(''family'', JStr ''Dela Cruz''),
                               (''given'', JArr [JStr ''Juan''])]]),
        (''birthDate'', JStr ''1980-01-'')])"
  by (simp add: convert_hl7_to_fhir_def convert_body_def short_date_hl7_def py_dict_item_def
      py_format_def py_get_def)

text \<open>
  C3 (as amended). When dateOfBirth is missing, the routine raises ValueError with a
  message that names dateOfBirth and produces no result. A missing patientId, lastName or
  firstName raises nothing: when dateOfBirth is a string, the routine returns a result that
  holds None in the place of each missing field.
\<close>

theorem convert_missing_fields:
  "(map_of d ''dateOfBirth'' = None \<longrightarrow>
      convert_hl7_to_fhir py_str d
        = Inl (ValueError (''Missing or malformed HL7 data: '' @ quote_str ''dateOfBirth'')))
   \<and> (\<forall>s. map_of d ''dateOfBirth'' = Some (JStr s) \<longrightarrow>
        (\<exists>b. convert_hl7_to_fhir py_str d =
          Inr (JObj
            [(''resourceType'', JStr ''Patient''),
             (''identifier'', JArr [JObj [(''system'', JStr ''urn:clinic:patient-id''),
                (''value'', case map_of d ''patientId'' of Some v \<Rightarrow> v | None \<Rightarrow> JNull)]]),
             (''name'', JArr [JObj
                [(''family'', case map_of d ''lastName'' of Some v \<Rightarrow> v | None \<Rightarrow> JNull),
                 (''given'', JArr [case map_of d ''firstName'' of Some v \<Rightarrow> v | None \<Rightarrow> JNull])]]),
             (''birthDate'', JStr b)])))"
proof (intro conjI impI allI)
  assume "map_of d ''dateOfBirth'' = None"
  then show "convert_hl7_to_fhir py_str d
        = Inl (ValueError (''Missing or malformed HL7 data: '' @ quote_str ''dateOfBirth''))"
    by (simp add: convert_hl7_to_fhir_def convert_body_def py_dict_item_def)
next
  fix s
  assume "map_of d ''dateOfBirth'' = Some (JStr s)"
  then show "\<exists>b. convert_hl7_to_fhir py_str d =
          Inr (JObj
            [(''resourceType'', JStr ''Patient''),
             (''identifier'', JArr [JObj [(''system'', JStr ''urn:clinic:patient-id''),
                (''value'', case map_of d ''patientId'' of Some v \<Rightarrow> v | None \<Rightarrow> JNull)]]),
             (''name'', JArr [JObj
                [(''family'', case map_of d ''lastName'' of Some v \<Rightarrow> v | None \<Rightarrow> JNull),
                 (''given'', JArr [case map_of d ''firstName'' of Some v \<Rightarrow> v | None \<Rightarrow> JNull])]]),
             (''birthDate'', JStr b)])"
    by (simp add: convert_hl7_to_fhir_def convert_body_string_date py_get_def)
qed

theorem convert_missing_fields_witness:
  "map_of no_date_hl7 ''dateOfBirth'' = None
   \<and> convert_hl7_to_fhir (\<lambda>v. []) no_date_hl7
       = Inl (ValueError (''Missing or malformed HL7 data: '' @ quote_str ''dateOfBirth''))
   \<and> map_of no_id_hl7 ''dateOfBirth'' = Some (JStr ''19800101'')
   \<and> (\<exists>b. convert_hl7_to_fhir (\<lambda>v. []) no_id_hl7 =
          Inr (JObj
            [(''resourceType'', JStr ''Patient''),
             (''identifier'', JArr [JObj [(''system'', JStr ''urn:clinic:patient-id''),
                (''value'', JNull)]]),
             (''name'', JArr [JObj
                [(''family'', JStr ''Dela Cruz''), (''given'', JArr [JStr ''Juan''])]]),
             (''birthDate'', JStr b)]))"
proof -
  have a: "map_of no_date_hl7 ''dateOfBirth'' = None"
    by (simp add: no_date_hl7_def)
  have b: "map_of no_id_hl7 ''dateOfBirth'' = Some (JStr ''19800101'')"
    by (simp add: no_id_hl7_def)
  have c: "map_of no_id_hl7 ''patientId'' = None"
       "map_of no_id_hl7 ''lastName'' = Some (JStr ''Dela Cruz'')"
       "map_of no_id_hl7 ''firstName'' = Some (JStr ''Juan'')"
    by (simp_all add: no_id_hl7_def)
  from convert_missing_fields [of no_date_hl7 "\<lambda>v. []"]
       convert_missing_fields [of no_id_hl7 "\<lambda>v. []"] a b c
  show ?thesis by simp
qed

text \<open>
  The claim as stated fails for a payload without patientId: a result with a null
  identifier value is returned.
\<close>

theorem convert_missing_id_counterexample:
  "map_of no_id_hl7 ''patientId'' = None
   \<and> convert_hl7_to_fhir (\<lambda>v. []) no_id_hl7 =
       Inr (JObj
         [(''resourceType'', JStr ''Patient''),
          (''identifier'', JArr [JObj [(''system'', JStr ''urn:clinic:patient-id''),
                                       (''value'', JNull)]]),
          (''name'', JArr [JObj [(''family'', JStr ''Dela Cruz''),
                                 (''given'', JArr [JStr ''Juan''])]]),
          (''birthDate'', JStr ''1980-01-01'')])"
  by (simp add: convert_hl7_to_fhir_def convert_body_def no_id_hl7_def py_dict_item_def
      py_format_def py_get_def)

subsection \<open>Dispatch\<close>

lemma extract_ai_reply: "extract_tool_name (ai_reply n) = Inr (JStr n)"
  by (simp add: extract_tool_name_def ai_reply_def py_dict_item_def)

text \<open>
  A decision that names a string which is not registered is refused with the "Unknown
  tool" error (status 400); no tool is executed and no translated data is returned.
\<close>

lemma unknown_string_tool_rejected:
  assumes "ai data = Inr ai_response"
    and "extract_tool_name ai_response = Inr (JStr n)"
    and "n \<notin> fst ` set (AVAILABLE_TOOLS py_str)"
  shows "translate_data ai ok py_str data = ([], Inl (UnknownTool (JStr n)))
         \<and> status_code (UnknownTool (JStr n)) = 400"
proof -
  from assms(3) have "map_of (AVAILABLE_TOOLS py_str) n = None"
    by (simp add: map_of_eq_None_iff)
  with assms(1,2) show ?thesis
    by (simp add: translate_data_def)
qed

lemma unknown_string_tool_example:
  "translate_data (\<lambda>d. Inr (ai_reply ''convert_cda_to_fhir'')) ok py_str example_hl7
     = ([], Inl (UnknownTool (JStr ''convert_cda_to_fhir'')))"
proof -
  have "''convert_cda_to_fhir'' \<notin> fst ` set (AVAILABLE_TOOLS py_str)"
    by (simp add: AVAILABLE_TOOLS_def)
  with unknown_string_tool_rejected [of "\<lambda>d. Inr (ai_reply ''convert_cda_to_fhir'')" example_hl7
      "ai_reply ''convert_cda_to_fhir''" "''convert_cda_to_fhir''" py_str ok] extract_ai_reply
  show ?thesis by simp
qed

text \<open>
  C6. The claim: every decision whose tool name matches no registered name is refused
  with the "Unknown tool" error. The membership test \<open>tool_name in AVAILABLE_TOOLS\<close> lies
  outside every try block and hashes the name: for a name that is a list it raises
  TypeError, which the handler does not catch, so the request ends with an unhandled error
  (status 500) and not with the "Unknown tool" error (status 400). No tool is executed
  and no translated data is returned.
\<close>

theorem unhashable_tool_name_unhandled:
  "extract_tool_name list_name_reply = Inr (JArr [JStr ''convert_hl7_to_fhir''])
   \<and> translate_data (\<lambda>d. Inr list_name_reply) ok py_str example_hl7
       = ([], Inl (Unhandled TypeError))
   \<and> status_code (Unhandled TypeError) = 500
   \<and> status_code (UnknownTool (JArr [JStr ''convert_hl7_to_fhir''])) = 400"
  by (simp add: translate_data_def extract_tool_name_def list_name_reply_def py_dict_item_def)

text \<open>
  The README's example request, with a decision that selects the registered tool, is
  translated, validated and returned.
\<close>

lemma translate_example:
  "translate_data (\<lambda>d. Inr (ai_reply ''convert_hl7_to_fhir'')) (\<lambda>d. True) py_str example_hl7
     = ([JStr ''convert_hl7_to_fhir''], Inr example_fhir)"
  by (simp add: translate_data_def extract_ai_reply AVAILABLE_TOOLS_def convert_hl7_to_fhir_def
      convert_body_def example_hl7_def py_dict_item_def py_format_def py_get_def
      validate_fhir_patient_def validate_body_def from_data_def py_assert_def example_fhir_def)

end
